theory Spec2Isabelle
  imports Main
begin

section \<open>Data model of the inventory part of AInventoryDemoCharacter\<close>

text \<open>
  The character keeps two pieces of inventory state: the inventory component (the store)
  and the raw pointer \<open>EquippedItem\<close>. An item handle is an \<open>AItem_Usable*\<close>: either the
  null pointer or a reference to an item object, identified here by a number. The test
  \<open>!EquippedItem\<close> of the source is the comparison with \<open>nullptr\<close>.
\<close>

datatype AItem_Usable_ptr = nullptr | Item nat

text \<open>
  Modelled from the spec: the declaration of \<open>EInventorySlotType\<close> lives in a header that
  is not part of the sources. The spec gives the enumerators Primary, Secondary and
  Count, with index 0 for Primary, index 1 for Secondary, and 2 slots before the Count
  sentinel. \<open>Unlisted n\<close> stands for the raw value \<open>3 + n\<close>, which names no enumerator and
  therefore reaches the \<open>default\<close> label of a switch.
\<close>

datatype EInventorySlotType = Primary | Secondary | Count | Unlisted nat

text \<open>\<open>static_cast<int>(Slot)\<close>\<close>

fun slot_int :: "EInventorySlotType \<Rightarrow> int" where
  "slot_int Primary = 0"
| "slot_int Secondary = 1"
| "slot_int Count = 2"
| "slot_int (Unlisted n) = 3 + int n"

text \<open>
  Modelled from the spec: \<open>UInventoryComponent\<close> is declared and implemented outside the
  sources. The spec describes it as an ordered, index-addressable sequence of item
  handles whose \<open>count()\<close> is the current number of stored items. The store is therefore
  the list of its handles; \<open>GetNumItems\<close> is its length (an int32 in the source, the size
  type of the engine's array, which no array length exceeds) and \<open>GetItems\<close> is the
  sequence itself.
\<close>

type_synonym UInventoryComponent = "AItem_Usable_ptr list"

definition GetNumItems :: "UInventoryComponent \<Rightarrow> int" where
  "GetNumItems store = int (length store)"

definition GetItems :: "UInventoryComponent \<Rightarrow> AItem_Usable_ptr list" where
  "GetItems store = store"

text \<open>
  Indexing the engine's array is range checked: an index outside \<open>0 ..< Num()\<close> stops the
  program. The failure is the value \<open>None\<close>.
\<close>

definition TArray_at :: "'a list \<Rightarrow> int \<Rightarrow> 'a option" where
  "TArray_at xs i = (if 0 \<le> i \<and> i < int (length xs) then Some (xs ! nat i) else None)"

record AInventoryDemoCharacter =
  InventoryComponent :: UInventoryComponent
  EquippedItem :: AItem_Usable_ptr

section \<open>Operations\<close>

text \<open>
  \<open>AddInventoryItem\<close>. The store's own \<open>AddItem\<close> is not part of the sources, so it is a
  parameter: any function from a handle and a store to the store after the call. The
  result pairs the returned boolean with the character after the call. The component
  pointer itself is set once in the constructor and dereferenced without a test, so the
  store is always present. The notifications that the store may raise are forwarded to
  overridable events outside the sources and are not part of the state.
\<close>

definition AddInventoryItem ::
  "(AItem_Usable_ptr \<Rightarrow> UInventoryComponent \<Rightarrow> UInventoryComponent) \<Rightarrow>
   AItem_Usable_ptr \<Rightarrow> AInventoryDemoCharacter \<Rightarrow> bool \<times> AInventoryDemoCharacter" where
  "AddInventoryItem AddItem InItem c =
     (let oldItemCount = GetNumItems (InventoryComponent c);
          c' = (if oldItemCount < slot_int Count
                then c\<lparr>InventoryComponent := AddItem InItem (InventoryComponent c)\<rparr>
                else c);
          newItemCount = GetNumItems (InventoryComponent c')
      in (newItemCount > oldItemCount, c'))"

text \<open>A store whose \<open>AddItem\<close> appends the handle, as the spec's \<open>add\<close> does when it accepts.\<close>

definition AddItem_append :: "AItem_Usable_ptr \<Rightarrow> UInventoryComponent \<Rightarrow> UInventoryComponent" where
  "AddItem_append InItem store = store @ [InItem]"

text \<open>A sequence of \<open>AddInventoryItem\<close> calls, one per handle, results discarded.\<close>

fun add_items ::
  "(AItem_Usable_ptr \<Rightarrow> UInventoryComponent \<Rightarrow> UInventoryComponent) \<Rightarrow>
   AItem_Usable_ptr list \<Rightarrow> AInventoryDemoCharacter \<Rightarrow> AInventoryDemoCharacter" where
  "add_items AddItem [] c = c"
| "add_items AddItem (h # hs) c = add_items AddItem hs (snd (AddInventoryItem AddItem h c))"

text \<open>\<open>RemoveInventoryItem\<close> has an empty body.\<close>

definition RemoveInventoryItem ::
  "AItem_Usable_ptr \<Rightarrow> AInventoryDemoCharacter \<Rightarrow> AInventoryDemoCharacter" where
  "RemoveInventoryItem InItem c = c"

text \<open>
  \<open>EquipItem\<close>. The result is \<open>None\<close> when an array access fails its range check and the
  character after the call otherwise.
\<close>

definition assign_EquippedItem ::
  "AInventoryDemoCharacter \<Rightarrow> AItem_Usable_ptr option \<Rightarrow> AInventoryDemoCharacter option" where
  "assign_EquippedItem c r = (case r of None \<Rightarrow> None | Some p \<Rightarrow> Some (c\<lparr>EquippedItem := p\<rparr>))"

definition EquipItem ::
  "EInventorySlotType \<Rightarrow> AInventoryDemoCharacter \<Rightarrow> AInventoryDemoCharacter option" where
  "EquipItem Slot c =
     (if GetNumItems (InventoryComponent c) > 0 then
        (if EquippedItem c = nullptr then
           (case Slot of
              Primary \<Rightarrow>
                assign_EquippedItem c (TArray_at (GetItems (InventoryComponent c)) (slot_int Slot))
            | Secondary \<Rightarrow>
                (if GetNumItems (InventoryComponent c) > slot_int Secondary
                 then assign_EquippedItem c
                        (TArray_at (GetItems (InventoryComponent c)) (slot_int Slot))
                 else Some c)
            | Count \<Rightarrow>
                assign_EquippedItem c (TArray_at (GetItems (InventoryComponent c)) 0)
            | Unlisted n \<Rightarrow> Some c)
         else Some c)
      else Some c)"

text \<open>\<open>UnequipItem\<close> has an empty body.\<close>

definition UnequipItem :: "AInventoryDemoCharacter \<Rightarrow> AInventoryDemoCharacter" where
  "UnequipItem c = c"

text \<open>Sequences of equip and unequip calls; a failed range check ends the run.\<close>

datatype equip_call = CallEquipItem EInventorySlotType | CallUnequipItem

fun run_calls :: "equip_call list \<Rightarrow> AInventoryDemoCharacter \<Rightarrow> AInventoryDemoCharacter option" where
  "run_calls [] c = Some c"
| "run_calls (CallEquipItem Slot # cs) c =
     (case EquipItem Slot c of None \<Rightarrow> None | Some c' \<Rightarrow> run_calls cs c')"
| "run_calls (CallUnequipItem # cs) c = run_calls cs (UnequipItem c)"

section \<open>Auxiliary facts\<close>

lemma TArray_at_in_range:
  "0 \<le> i \<Longrightarrow> i < int (length xs) \<Longrightarrow> TArray_at xs i = Some (xs ! nat i)"
  by (simp add: TArray_at_def)

lemma TArray_at_empty: "TArray_at [] i = None"
  by (simp add: TArray_at_def)

lemma AddInventoryItem_full:
  "2 \<le> GetNumItems (InventoryComponent c) \<Longrightarrow> AddInventoryItem AddItem InItem c = (False, c)"
  by (simp add: AddInventoryItem_def Let_def)

lemma AddInventoryItem_room:
  "GetNumItems (InventoryComponent c) < 2 \<Longrightarrow>
   snd (AddInventoryItem AddItem InItem c) =
     c\<lparr>InventoryComponent := AddItem InItem (InventoryComponent c)\<rparr>"
  by (simp add: AddInventoryItem_def Let_def)

lemma EquipItem_equipped:
  "EquippedItem c \<noteq> nullptr \<Longrightarrow> EquipItem Slot c = Some c"
  by (simp add: EquipItem_def)

lemma EquipItem_first:
  assumes "0 < GetNumItems (InventoryComponent c)" and "EquippedItem c = nullptr"
  shows "EquipItem Primary c = Some (c\<lparr>EquippedItem := InventoryComponent c ! 0\<rparr>)"
    and "EquipItem Count c = Some (c\<lparr>EquippedItem := InventoryComponent c ! 0\<rparr>)"
  using assms
  by (simp_all add: EquipItem_def GetNumItems_def GetItems_def TArray_at_def
      assign_EquippedItem_def)

lemma AddInventoryItem_count_bound:
  assumes grow: "\<forall>h s. length (AddItem h s) \<le> Suc (length s)"
    and inv: "GetNumItems (InventoryComponent c) \<le> 2"
  shows "GetNumItems (InventoryComponent (snd (AddInventoryItem AddItem InItem c))) \<le> 2"
proof (cases "GetNumItems (InventoryComponent c) < 2")
  case True
  then have "length (InventoryComponent c) < 2"
    by (simp add: GetNumItems_def)
  moreover have "length (AddItem InItem (InventoryComponent c)) \<le> Suc (length (InventoryComponent c))"
    using grow by blast
  ultimately have "length (AddItem InItem (InventoryComponent c)) \<le> 2"
    by linarith
  with True show ?thesis
    by (simp add: AddInventoryItem_room GetNumItems_def)
next
  case False
  with inv have "2 \<le> GetNumItems (InventoryComponent c)" by simp
  then show ?thesis using inv by (simp add: AddInventoryItem_full)
qed

section \<open>Adding items\<close>

text \<open>
  C1. The boolean returned by \<open>AddInventoryItem\<close> is true exactly when the count of the
  store after the call is greater than the count before it, whatever the store's \<open>AddItem\<close>
  does and whatever handle is passed; when the store already holds two or more handles
  the result is false.
\<close>

theorem AddInventoryItem_true_iff_count_increased:
  "fst (AddInventoryItem AddItem InItem c) =
     (GetNumItems (InventoryComponent (snd (AddInventoryItem AddItem InItem c)))
        > GetNumItems (InventoryComponent c))
   \<and> (2 \<le> GetNumItems (InventoryComponent c) \<longrightarrow> \<not> fst (AddInventoryItem AddItem InItem c))"
  by (simp add: AddInventoryItem_def Let_def)

text \<open>
  The theorem at a full store \<open>[Item 1, Item 2]\<close>, where the call returns false, and at
  the empty store with an appending \<open>AddItem\<close>, where it returns true.
\<close>

theorem AddInventoryItem_true_iff_count_increased_witness:
  "2 \<le> GetNumItems (InventoryComponent \<lparr>InventoryComponent = [Item 1, Item 2], EquippedItem = nullptr\<rparr>)
   \<and> \<not> fst (AddInventoryItem AddItem_append (Item 3)
              \<lparr>InventoryComponent = [Item 1, Item 2], EquippedItem = nullptr\<rparr>)
   \<and> fst (AddInventoryItem AddItem_append (Item 1)
              \<lparr>InventoryComponent = [], EquippedItem = nullptr\<rparr>)"
proof -
  have full: "2 \<le> GetNumItems (InventoryComponent
      \<lparr>InventoryComponent = [Item 1, Item 2], EquippedItem = nullptr\<rparr>)"
    by (simp add: GetNumItems_def)
  have grown: "GetNumItems (InventoryComponent (snd (AddInventoryItem AddItem_append (Item 1)
        \<lparr>InventoryComponent = [], EquippedItem = nullptr\<rparr>)))
      > GetNumItems (InventoryComponent \<lparr>InventoryComponent = [], EquippedItem = nullptr\<rparr>)"
    by (simp add: AddInventoryItem_def Let_def GetNumItems_def AddItem_append_def)
  show ?thesis
    using full grown
      AddInventoryItem_true_iff_count_increased
        [of AddItem_append "Item 3" "\<lparr>InventoryComponent = [Item 1, Item 2], EquippedItem = nullptr\<rparr>"]
      AddInventoryItem_true_iff_count_increased
        [of AddItem_append "Item 1" "\<lparr>InventoryComponent = [], EquippedItem = nullptr\<rparr>"]
    by blast
qed

text \<open>
  C2. For a store whose \<open>AddItem\<close> grows the sequence by at most one handle per call (in
  particular one that appends the handle), \<open>count \<le> 2\<close> is preserved by every sequence of
  \<open>AddInventoryItem\<close> calls: started from a store with at most two handles, such as the
  empty one, the count never exceeds 2.
\<close>

theorem add_items_count_le_2:
  assumes "\<forall>h s. length (AddItem h s) \<le> Suc (length s)"
    and "GetNumItems (InventoryComponent c) \<le> 2"
  shows "GetNumItems (InventoryComponent (add_items AddItem hs c)) \<le> 2"
  using assms
proof (induction hs arbitrary: c)
  case Nil
  then show ?case by simp
next
  case (Cons h hs)
  have "GetNumItems (InventoryComponent (snd (AddInventoryItem AddItem h c))) \<le> 2"
    using Cons.prems by (rule AddInventoryItem_count_bound)
  with Cons.IH Cons.prems(1) show ?case by simp
qed

text \<open>
  Three additions to the empty appending store: the third is dropped.
\<close>

theorem add_items_count_le_2_witness:
  "(\<forall>h s. length (AddItem_append h s) \<le> Suc (length s))
   \<and> GetNumItems (InventoryComponent \<lparr>InventoryComponent = [], EquippedItem = nullptr\<rparr>) \<le> 2
   \<and> GetNumItems (InventoryComponent (add_items AddItem_append [Item 1, Item 2, Item 3]
        \<lparr>InventoryComponent = [], EquippedItem = nullptr\<rparr>)) \<le> 2
   \<and> InventoryComponent (add_items AddItem_append [Item 1, Item 2, Item 3]
        \<lparr>InventoryComponent = [], EquippedItem = nullptr\<rparr>) = [Item 1, Item 2]"
proof -
  have grow: "\<forall>h s. length (AddItem_append h s) \<le> Suc (length s)"
    by (simp add: AddItem_append_def)
  have start: "GetNumItems (InventoryComponent \<lparr>InventoryComponent = [], EquippedItem = nullptr\<rparr>) \<le> 2"
    by (simp add: GetNumItems_def)
  have run: "InventoryComponent (add_items AddItem_append [Item 1, Item 2, Item 3]
        \<lparr>InventoryComponent = [], EquippedItem = nullptr\<rparr>) = [Item 1, Item 2]"
    by (simp add: AddInventoryItem_def Let_def GetNumItems_def AddItem_append_def)
  show ?thesis
    using grow start run add_items_count_le_2 [OF grow start, of "[Item 1, Item 2, Item 3]"]
    by blast
qed

text \<open>
  C3. At capacity (count at least 2) \<open>AddInventoryItem\<close> returns false and leaves the
  character, and with it the store, as it was, for every \<open>AddItem\<close> the store may have: the
  store's \<open>AddItem\<close> plays no part in the outcome, and the call has no failing branch.
\<close>

theorem AddInventoryItem_at_capacity_noop:
  "2 \<le> GetNumItems (InventoryComponent c) \<Longrightarrow>
   AddInventoryItem AddItem InItem c = (False, c)
   \<and> GetNumItems (InventoryComponent (snd (AddInventoryItem AddItem InItem c)))
       = GetNumItems (InventoryComponent c)"
  by (simp add: AddInventoryItem_full)

text \<open>
  Store \<open>[Item 1, Item 2]\<close>, adding \<open>Item 3\<close>: false, and the count stays 2.
\<close>

theorem AddInventoryItem_at_capacity_noop_witness:
  "2 \<le> GetNumItems (InventoryComponent \<lparr>InventoryComponent = [Item 1, Item 2], EquippedItem = nullptr\<rparr>)
   \<and> AddInventoryItem AddItem_append (Item 3)
        \<lparr>InventoryComponent = [Item 1, Item 2], EquippedItem = nullptr\<rparr>
       = (False, \<lparr>InventoryComponent = [Item 1, Item 2], EquippedItem = nullptr\<rparr>)
   \<and> GetNumItems (InventoryComponent (snd (AddInventoryItem AddItem_append (Item 3)
        \<lparr>InventoryComponent = [Item 1, Item 2], EquippedItem = nullptr\<rparr>))) = 2"
proof -
  have full: "2 \<le> GetNumItems (InventoryComponent
      \<lparr>InventoryComponent = [Item 1, Item 2], EquippedItem = nullptr\<rparr>)"
    by (simp add: GetNumItems_def)
  have two: "GetNumItems (InventoryComponent
      \<lparr>InventoryComponent = [Item 1, Item 2], EquippedItem = nullptr\<rparr>) = 2"
    by (simp add: GetNumItems_def)
  show ?thesis
    using full two AddInventoryItem_at_capacity_noop [OF full, of AddItem_append "Item 3"]
    by simp
qed

section \<open>Removing items\<close>

text \<open>
  C9. \<open>RemoveInventoryItem\<close> accepts every handle, the equipped one included, and changes
  nothing: the store, its count and the equipped pointer are as before. The source function
  returns no value, so the character after the call is all there is to observe.
\<close>

theorem RemoveInventoryItem_noop:
  "RemoveInventoryItem InItem c = c
   \<and> InventoryComponent (RemoveInventoryItem InItem c) = InventoryComponent c
   \<and> GetNumItems (InventoryComponent (RemoveInventoryItem InItem c)) = GetNumItems (InventoryComponent c)
   \<and> EquippedItem (RemoveInventoryItem InItem c) = EquippedItem c
   \<and> RemoveInventoryItem (EquippedItem c) c = c"
  by (simp add: RemoveInventoryItem_def)

text \<open>
  Removing the equipped handle \<open>Item 1\<close> from \<open>[Item 1, Item 2]\<close>.
\<close>

theorem RemoveInventoryItem_noop_witness:
  "RemoveInventoryItem (Item 1) \<lparr>InventoryComponent = [Item 1, Item 2], EquippedItem = Item 1\<rparr>
     = \<lparr>InventoryComponent = [Item 1, Item 2], EquippedItem = Item 1\<rparr>"
  using RemoveInventoryItem_noop
    [of "Item 1" "\<lparr>InventoryComponent = [Item 1, Item 2], EquippedItem = Item 1\<rparr>"]
  by blast

section \<open>Equipping\<close>

text \<open>
  C4. With an empty store (count 0), \<open>EquipItem\<close> of any slot returns with the character
  unchanged: the equipped pointer keeps its value (empty stays empty), the store is not
  modified, and no element of it is read.
\<close>

theorem EquipItem_empty_store_noop:
  "GetNumItems (InventoryComponent c) = 0 \<Longrightarrow>
   EquipItem Slot c = Some c"
  by (simp add: EquipItem_def)

theorem EquipItem_empty_store_noop_witness:
  "GetNumItems (InventoryComponent \<lparr>InventoryComponent = [], EquippedItem = nullptr\<rparr>) = 0
   \<and> EquippedItem \<lparr>InventoryComponent = [], EquippedItem = nullptr\<rparr> = nullptr
   \<and> EquipItem Primary \<lparr>InventoryComponent = [], EquippedItem = nullptr\<rparr>
       = Some \<lparr>InventoryComponent = [], EquippedItem = nullptr\<rparr>"
proof -
  have empty: "GetNumItems (InventoryComponent \<lparr>InventoryComponent = [], EquippedItem = nullptr\<rparr>) = 0"
    by (simp add: GetNumItems_def)
  show ?thesis
    using empty EquipItem_empty_store_noop [OF empty, of Primary] by simp
qed

text \<open>
  C5. With exactly one stored handle and nothing equipped, \<open>EquipItem Secondary\<close> changes
  nothing: the guard \<open>GetNumItems() > 1\<close> of the Secondary case fails.
\<close>

theorem EquipItem_Secondary_one_item_noop:
  "GetNumItems (InventoryComponent c) = 1 \<Longrightarrow> EquippedItem c = nullptr \<Longrightarrow>
   EquipItem Secondary c = Some c"
  by (simp add: EquipItem_def)

theorem EquipItem_Secondary_one_item_noop_witness:
  "GetNumItems (InventoryComponent \<lparr>InventoryComponent = [Item 1], EquippedItem = nullptr\<rparr>) = 1
   \<and> EquippedItem \<lparr>InventoryComponent = [Item 1], EquippedItem = nullptr\<rparr> = nullptr
   \<and> EquipItem Secondary \<lparr>InventoryComponent = [Item 1], EquippedItem = nullptr\<rparr>
       = Some \<lparr>InventoryComponent = [Item 1], EquippedItem = nullptr\<rparr>"
proof -
  have one: "GetNumItems (InventoryComponent \<lparr>InventoryComponent = [Item 1], EquippedItem = nullptr\<rparr>) = 1"
    by (simp add: GetNumItems_def)
  have free: "EquippedItem \<lparr>InventoryComponent = [Item 1], EquippedItem = nullptr\<rparr> = nullptr"
    by simp
  show ?thesis
    using one free EquipItem_Secondary_one_item_noop [OF one free] by simp
qed

text \<open>
  C6, as the code has it. Once the equipped pointer is not null, every sequence of
  \<open>EquipItem\<close> calls, for any slots, and \<open>UnequipItem\<close> calls returns with the character
  unchanged: \<open>EquipItem\<close> does nothing while something is equipped, and \<open>UnequipItem\<close> has
  an empty body, so it does not clear the pointer either.
\<close>

theorem equipped_kept_by_equip_and_unequip:
  "EquippedItem c \<noteq> nullptr \<Longrightarrow> run_calls calls c = Some c"
proof (induction calls)
  case Nil
  show ?case by simp
next
  case (Cons call calls)
  show ?case
  proof (cases call)
    case (CallEquipItem Slot)
    with Cons show ?thesis by (simp add: EquipItem_equipped)
  next
    case CallUnequipItem
    with Cons show ?thesis by (simp add: UnequipItem_def)
  qed
qed

theorem equipped_kept_by_equip_and_unequip_witness:
  "EquippedItem \<lparr>InventoryComponent = [Item 1, Item 2], EquippedItem = Item 1\<rparr> \<noteq> nullptr
   \<and> run_calls [CallEquipItem Secondary, CallUnequipItem, CallEquipItem Count, CallEquipItem (Unlisted 0)]
        \<lparr>InventoryComponent = [Item 1, Item 2], EquippedItem = Item 1\<rparr>
       = Some \<lparr>InventoryComponent = [Item 1, Item 2], EquippedItem = Item 1\<rparr>"
proof -
  have held: "EquippedItem \<lparr>InventoryComponent = [Item 1, Item 2], EquippedItem = Item 1\<rparr> \<noteq> nullptr"
    by simp
  show ?thesis
    using held equipped_kept_by_equip_and_unequip [OF held] by blast
qed

text \<open>
  C6 as stated expects \<open>UnequipItem\<close> to empty the equipped pointer so that a later equip
  succeeds. With \<open>Item 1\<close> equipped from the store \<open>[Item 1, Item 2]\<close>, the pointer is still
  \<open>Item 1\<close> after \<open>UnequipItem\<close>, and a following \<open>EquipItem Secondary\<close> does not equip
  \<open>Item 2\<close>.
\<close>

theorem UnequipItem_does_not_clear:
  "EquippedItem \<lparr>InventoryComponent = [Item 1, Item 2], EquippedItem = Item 1\<rparr> \<noteq> nullptr
   \<and> EquippedItem (UnequipItem \<lparr>InventoryComponent = [Item 1, Item 2], EquippedItem = Item 1\<rparr>)
       \<noteq> nullptr
   \<and> run_calls [CallUnequipItem, CallEquipItem Secondary]
        \<lparr>InventoryComponent = [Item 1, Item 2], EquippedItem = Item 1\<rparr>
       = Some \<lparr>InventoryComponent = [Item 1, Item 2], EquippedItem = Item 1\<rparr>"
  by (simp add: UnequipItem_def EquipItem_def)

text \<open>
  C7. With at least one stored handle and nothing equipped, \<open>EquipItem Count\<close> assigns the
  handle at index 0 to the equipped pointer, which is what \<open>EquipItem Primary\<close> does in the
  same state.
\<close>

theorem EquipItem_Count_same_as_Primary:
  "0 < GetNumItems (InventoryComponent c) \<Longrightarrow> EquippedItem c = nullptr \<Longrightarrow>
   EquipItem Count c = Some (c\<lparr>EquippedItem := GetItems (InventoryComponent c) ! 0\<rparr>)
   \<and> EquipItem Count c = EquipItem Primary c"
  by (simp add: EquipItem_first GetItems_def)

theorem EquipItem_Count_same_as_Primary_witness:
  "0 < GetNumItems (InventoryComponent \<lparr>InventoryComponent = [Item 1, Item 2], EquippedItem = nullptr\<rparr>)
   \<and> EquippedItem \<lparr>InventoryComponent = [Item 1, Item 2], EquippedItem = nullptr\<rparr> = nullptr
   \<and> EquipItem Count \<lparr>InventoryComponent = [Item 1, Item 2], EquippedItem = nullptr\<rparr>
       = Some \<lparr>InventoryComponent = [Item 1, Item 2], EquippedItem = Item 1\<rparr>
   \<and> EquipItem Primary \<lparr>InventoryComponent = [Item 1, Item 2], EquippedItem = nullptr\<rparr>
       = Some \<lparr>InventoryComponent = [Item 1, Item 2], EquippedItem = Item 1\<rparr>"
proof -
  have some: "0 < GetNumItems (InventoryComponent
      \<lparr>InventoryComponent = [Item 1, Item 2], EquippedItem = nullptr\<rparr>)"
    by (simp add: GetNumItems_def)
  have free: "EquippedItem \<lparr>InventoryComponent = [Item 1, Item 2], EquippedItem = nullptr\<rparr> = nullptr"
    by simp
  show ?thesis
    using some free EquipItem_Count_same_as_Primary [OF some free] by (auto simp add: GetItems_def)
qed

text \<open>
  C8, as the code has it. With at least one stored handle and nothing equipped,
  \<open>EquipItem Primary\<close> returns normally, leaves the store as it was and makes the equipped
  pointer equal to the handle at index 0; the pointer is then non-null provided that
  handle is not the null pointer.
\<close>

theorem EquipItem_Primary_takes_first:
  "0 < GetNumItems (InventoryComponent c) \<Longrightarrow> EquippedItem c = nullptr \<Longrightarrow>
   (\<exists>c'. EquipItem Primary c = Some c'
      \<and> EquippedItem c' = GetItems (InventoryComponent c) ! 0
      \<and> InventoryComponent c' = InventoryComponent c
      \<and> (GetItems (InventoryComponent c) ! 0 \<noteq> nullptr \<longrightarrow> EquippedItem c' \<noteq> nullptr))"
  by (simp add: EquipItem_first GetItems_def)

theorem EquipItem_Primary_takes_first_witness:
  "0 < GetNumItems (InventoryComponent \<lparr>InventoryComponent = [Item 7], EquippedItem = nullptr\<rparr>)
   \<and> EquippedItem \<lparr>InventoryComponent = [Item 7], EquippedItem = nullptr\<rparr> = nullptr
   \<and> GetItems (InventoryComponent \<lparr>InventoryComponent = [Item 7], EquippedItem = nullptr\<rparr>) ! 0 \<noteq> nullptr
   \<and> (\<exists>c'. EquipItem Primary \<lparr>InventoryComponent = [Item 7], EquippedItem = nullptr\<rparr> = Some c'
         \<and> EquippedItem c' = Item 7 \<and> EquippedItem c' \<noteq> nullptr)"
proof -
  have some: "0 < GetNumItems (InventoryComponent \<lparr>InventoryComponent = [Item 7], EquippedItem = nullptr\<rparr>)"
    by (simp add: GetNumItems_def)
  have free: "EquippedItem \<lparr>InventoryComponent = [Item 7], EquippedItem = nullptr\<rparr> = nullptr"
    by simp
  have first: "GetItems (InventoryComponent \<lparr>InventoryComponent = [Item 7], EquippedItem = nullptr\<rparr>) ! 0 = Item 7"
    by (simp add: GetItems_def)
  show ?thesis
    using some free first EquipItem_Primary_takes_first [OF some free] by auto
qed

text \<open>
  C8 as stated promises a non-empty equipped pointer in every state with a positive count.
  The handles are raw pointers and neither \<open>AddInventoryItem\<close> nor \<open>EquipItem\<close> tests
  them: adding \<open>nullptr\<close> to an empty appending store gives the store \<open>[nullptr]\<close> with
  count 1, and \<open>EquipItem Primary\<close> then assigns the null pointer, so nothing is equipped
  after the call.
\<close>

theorem EquipItem_Primary_null_handle:
  "0 < GetNumItems (InventoryComponent \<lparr>InventoryComponent = [nullptr], EquippedItem = nullptr\<rparr>)
   \<and> EquippedItem \<lparr>InventoryComponent = [nullptr], EquippedItem = nullptr\<rparr> = nullptr
   \<and> EquipItem Primary \<lparr>InventoryComponent = [nullptr], EquippedItem = nullptr\<rparr>
       = Some \<lparr>InventoryComponent = [nullptr], EquippedItem = nullptr\<rparr>
   \<and> snd (AddInventoryItem AddItem_append nullptr \<lparr>InventoryComponent = [], EquippedItem = nullptr\<rparr>)
       = \<lparr>InventoryComponent = [nullptr], EquippedItem = nullptr\<rparr>"
  by (simp add: EquipItem_def GetNumItems_def GetItems_def TArray_at_def assign_EquippedItem_def
      AddInventoryItem_def AddItem_append_def Let_def)

text \<open>
  C10. No array access of \<open>EquipItem\<close> fails its range check: for every character state
  and every slot the call returns normally. Index 0 is read (Primary, Count) only under
  \<open>GetNumItems() > 0\<close> and index 1 (Secondary) only under \<open>GetNumItems() > 1\<close>.
\<close>

theorem EquipItem_never_out_of_bounds:
  "EquipItem Slot c \<noteq> None"
proof (cases "0 < GetNumItems (InventoryComponent c) \<and> EquippedItem c = nullptr")
  case False
  then show ?thesis by (auto simp add: EquipItem_def)
next
  case True
  then have pos: "0 < int (length (InventoryComponent c))" and free: "EquippedItem c = nullptr"
    by (simp_all add: GetNumItems_def)
  show ?thesis
  proof (cases Slot)
    case Primary
    with pos free show ?thesis
      by (simp add: EquipItem_def GetNumItems_def GetItems_def TArray_at_def assign_EquippedItem_def)
  next
    case Secondary
    with pos free show ?thesis
      by (simp add: EquipItem_def GetNumItems_def GetItems_def TArray_at_def assign_EquippedItem_def)
  next
    case Count
    with pos free show ?thesis
      by (simp add: EquipItem_def GetNumItems_def GetItems_def TArray_at_def assign_EquippedItem_def)
  next
    case (Unlisted n)
    with pos free show ?thesis by (simp add: EquipItem_def)
  qed
qed

theorem EquipItem_never_out_of_bounds_witness:
  "EquipItem Secondary \<lparr>InventoryComponent = [Item 1], EquippedItem = nullptr\<rparr> \<noteq> None
   \<and> EquipItem Primary \<lparr>InventoryComponent = [], EquippedItem = nullptr\<rparr> \<noteq> None"
  using EquipItem_never_out_of_bounds [of Secondary "\<lparr>InventoryComponent = [Item 1], EquippedItem = nullptr\<rparr>"]
    EquipItem_never_out_of_bounds [of Primary "\<lparr>InventoryComponent = [], EquippedItem = nullptr\<rparr>"]
  by blast

end
